theory Spec2Isabelle
  imports Main "HOL-Library.AList"
begin

section \<open>Python values\<close>

text \<open>
  The serializers of \<^verbatim>\<open>koku/api/iam/serializers.py\<close> work on dictionaries of
  JSON-like values.  Text is a list of characters with code points below 256.  A string
  object carries one bit of identity: whether it is the interned object that a string
  constant of the module denotes.  The source compares strings with \<^verbatim>\<open>is not\<close>,
  which compares objects and not their text, so the bit is part of the value.
  \<^verbatim>\<open>PDictType\<close> is the class \<^verbatim>\<open>dict\<close> itself, which the source passes as a
  default value.
\<close>

datatype pyval =
    PNone
  | PBool bool
  | PInt int
  | PStr bool string
  | PList "pyval list"
  | PDict "(string \<times> pyval) list"
  | PDictType

type_synonym pydict = "(string \<times> pyval) list"

datatype vmessage =
    InvalidPreference string pyval
  | FieldError string string

datatype error =
    ValidationError vmessage
  | AttributeError
  | TypeError
  | IndexError
  | ValueError
  | LocaleError
  | IntegrityError
  | DoesNotExist
  | MultipleObjectsReturned
  | EmailError

text \<open>\<^verbatim>\<open>d.get(k)\<close> and \<^verbatim>\<open>d.get(k, default)\<close>.\<close>

definition dict_get_default :: "pydict \<Rightarrow> string \<Rightarrow> pyval \<Rightarrow> pyval" where
  "dict_get_default d k dflt = (case map_of d k of None \<Rightarrow> dflt | Some v \<Rightarrow> v)"

definition dict_get :: "pydict \<Rightarrow> string \<Rightarrow> pyval" where
  "dict_get d k = dict_get_default d k PNone"

text \<open>
  \<^verbatim>\<open>x is 'lit'\<close> for a string constant of the module: true only of the interned
  object with that text.  \<^verbatim>\<open>x == 'lit'\<close> compares the text.
\<close>

fun py_is_literal :: "pyval \<Rightarrow> string \<Rightarrow> bool" where
  "py_is_literal (PStr interned s) lit = (interned \<and> s = lit)"
| "py_is_literal _ lit = False"

fun py_eq_literal :: "pyval \<Rightarrow> string \<Rightarrow> bool" where
  "py_eq_literal (PStr interned s) lit = (s = lit)"
| "py_eq_literal _ lit = False"

text \<open>\<^verbatim>\<open>x in iterable\<close> for an iterable of strings: membership by equality of text.\<close>

fun py_in :: "pyval \<Rightarrow> string list \<Rightarrow> bool" where
  "py_in (PStr interned s) xs = (s \<in> set xs)"
| "py_in _ xs = False"

section \<open>Characters, \<^verbatim>\<open>str.lower\<close>, \<^verbatim>\<open>str.strip\<close> and \<^verbatim>\<open>re.sub\<close>\<close>

text \<open>
  The character classes of Python on code points below 256: \<^verbatim>\<open>str.isalnum\<close>,
  the regular expression classes \<^verbatim>\<open>\w\<close> (alphanumeric or underscore) and
  \<^verbatim>\<open>\W\<close> (its complement), \<^verbatim>\<open>str.isspace\<close> and \<^verbatim>\<open>str.lower\<close>.
\<close>

definition py_isalnum :: "char \<Rightarrow> bool" where
  "py_isalnum c =
     (let n = (of_char c :: nat) in
        (48 \<le> n \<and> n \<le> 57) \<or> (65 \<le> n \<and> n \<le> 90) \<or> (97 \<le> n \<and> n \<le> 122)
        \<or> n = 170 \<or> n = 178 \<or> n = 179 \<or> n = 181 \<or> n = 185 \<or> n = 186
        \<or> (188 \<le> n \<and> n \<le> 190) \<or> (192 \<le> n \<and> n \<le> 214)
        \<or> (216 \<le> n \<and> n \<le> 246) \<or> 248 \<le> n)"

definition re_word :: "char \<Rightarrow> bool" where
  "re_word c = (py_isalnum c \<or> c = CHR ''_'')"

definition re_nonword :: "char \<Rightarrow> bool" where
  "re_nonword c = (\<not> re_word c)"

definition py_isspace :: "char \<Rightarrow> bool" where
  "py_isspace c =
     (let n = (of_char c :: nat) in
        (9 \<le> n \<and> n \<le> 13) \<or> (28 \<le> n \<and> n \<le> 32) \<or> n = 133 \<or> n = 160)"

definition py_lower_char :: "char \<Rightarrow> char" where
  "py_lower_char c =
     (let n = (of_char c :: nat) in
        if (65 \<le> n \<and> n \<le> 90) \<or> (192 \<le> n \<and> n \<le> 214) \<or> (216 \<le> n \<and> n \<le> 222)
        then char_of (n + 32) else c)"

definition py_lower :: "string \<Rightarrow> string" where
  "py_lower s = map py_lower_char s"

definition py_strip :: "string \<Rightarrow> string" where
  "py_strip s = rev (dropWhile py_isspace (rev (dropWhile py_isspace s)))"

text \<open>
  \<^verbatim>\<open>re.compile('[...]+').sub(repl, s)\<close> for a pattern that is one character class
  repeated: scanning from the left, every maximal run of characters of the class is
  replaced by \<^verbatim>\<open>repl\<close>, every other character is copied.
\<close>

function re_sub_class_plus :: "(char \<Rightarrow> bool) \<Rightarrow> string \<Rightarrow> string \<Rightarrow> string" where
  "re_sub_class_plus cls repl [] = []"
| "re_sub_class_plus cls repl (c # cs) =
     (if cls c then repl @ re_sub_class_plus cls repl (dropWhile cls cs)
      else c # re_sub_class_plus cls repl cs)"
  by pat_completeness auto
termination
  by (relation "measure (\<lambda>(cls, repl, s). length s)")
     (auto simp: less_Suc_eq_le length_dropWhile_le)

section \<open>Schema names\<close>

text \<open>
  \<^verbatim>\<open>_create_schema_name\<close>:
  \<^verbatim>\<open>re.compile(r'[\W_]+').sub('', customer_name).lower()\<close>.
  A leading underscore of a source name is written as the prefix \<^verbatim>\<open>priv_\<close>.
\<close>

definition priv_create_schema_name :: "string \<Rightarrow> string" where
  "priv_create_schema_name customer_name =
     py_lower (re_sub_class_plus (\<lambda>c. re_nonword c \<or> c = CHR ''_'') [] customer_name)"

text \<open>
  The derivation as the specification words it: the non-word characters are stripped
  and the result is lowercased.
\<close>

definition spec_schema_name :: "string \<Rightarrow> string" where
  "spec_schema_name customer_name = py_lower (filter re_word customer_name)"

section \<open>Rows of the database\<close>

text \<open>
  Modelled from the spec: the entities User (identity, credentials, uuid), Customer
  (a tenant, owning a schema name and an owner user), UserPreference (a named
  preference of a user) and ResetToken (a token tied to a user), each with the fields
  the serializers read or write.  Their declarations, in
  \<^verbatim>\<open>koku/api/iam/models.py\<close>, are not among the sources at hand.  The creation date
  of a customer is left out.
\<close>

datatype uuid = UUID nat

record user =
  user_id :: nat
  user_uuid :: uuid
  user_username :: string
  user_email :: string
  user_password :: string

record preference =
  pref_id :: nat
  pref_uuid :: uuid
  pref_name :: pyval
  pref_description :: pyval
  pref_preference :: pyval
  pref_user_id :: pyval

record reset_token =
  token_id :: nat
  token :: uuid
  token_user_id :: nat

record customer =
  customer_id :: nat
  customer_uuid :: uuid
  customer_name :: string
  customer_owner_id :: nat
  customer_schema_name :: string

datatype row =
    UserRow user
  | PrefRow preference
  | TokenRow reset_token
  | CustomerRow customer
  | MemberRow nat nat

text \<open>The arguments of one call of \<^verbatim>\<open>new_user_login_email\<close>, in order.\<close>

type_synonym email_call = "string \<times> string \<times> string \<times> string"

section \<open>The environment\<close>

text \<open>
  What the module takes from the Python library, the operating system, Django and the
  settings, as parameters: the values of \<^verbatim>\<open>locale.locale_alias\<close>; the international
  currency symbol of a locale (\<open>None\<close> where \<^verbatim>\<open>locale.setlocale\<close> raises
  \<^verbatim>\<open>locale.Error\<close> or \<^verbatim>\<open>UnicodeDecodeError\<close>); the result of
  \<^verbatim>\<open>locale.getlocale()\<close>, which is the current locale or the exception it raises;
  whether setting the monetary locale back to a given locale raises \<^verbatim>\<open>locale.Error\<close>;
  \<^verbatim>\<open>unicodedata.normalize('NFKC', s)\<close>; \<^verbatim>\<open>pytz.all_timezones\<close>; the
  three default settings; \<^verbatim>\<open>gettext\<close>; the source of random numbers; the
  constraints of the database (an insert it rejects raises \<^verbatim>\<open>IntegrityError\<close>);
  whether sending an email fails; Django's \<^verbatim>\<open>validate_email\<close>; and the validation of
  the fields that the serializers generate from the models (\<open>None\<close>: invalid,
  otherwise the cleaned values).
\<close>

record env =
  locale_alias_values :: "string list"
  int_curr_symbol :: "string \<Rightarrow> string option"
  getlocale :: "error + string"
  restore_locale_fails :: "string \<Rightarrow> bool"
  nfkc :: "string \<Rightarrow> string"
  all_timezones :: "string list"
  KOKU_DEFAULT_CURRENCY :: pyval
  KOKU_DEFAULT_TIMEZONE :: pyval
  KOKU_DEFAULT_LOCALE :: pyval
  gettext :: "string \<Rightarrow> string"
  entropy :: "nat \<Rightarrow> nat"
  db_rejects :: "row list \<Rightarrow> row \<Rightarrow> bool"
  email_fails :: "email_call \<Rightarrow> bool"
  validate_email :: "string \<Rightarrow> bool"
  clean_user_fields :: "row list \<Rightarrow> string \<Rightarrow> string option \<Rightarrow> (string \<times> string option) option"
  clean_customer_name :: "row list \<Rightarrow> string \<Rightarrow> string option"

section \<open>Validation of a user preference\<close>

text \<open>
  \<^verbatim>\<open>_currency_symbols\<close>: for every locale alias, set the monetary locale and read its
  international currency symbol; a locale that cannot be set is skipped; a non-empty
  symbol is stripped and added to the set.  The set is kept as a list without
  duplicates.  The test \<^verbatim>\<open>currency is not ''\<close> is on the one empty string object.
  Before the loop the current locale is read with \<^verbatim>\<open>locale.getlocale()\<close>, after it
  the monetary locale is set back with \<^verbatim>\<open>locale.setlocale(locale.LC_MONETARY, current)\<close>;
  both stand outside the \<^verbatim>\<open>try\<close>, so an exception of either leaves the function.
\<close>

fun currency_symbols_loop :: "env \<Rightarrow> string list \<Rightarrow> string list \<Rightarrow> string list" where
  "currency_symbols_loop e [] symbols = symbols"
| "currency_symbols_loop e (loc # locales) symbols =
     (case int_curr_symbol e loc of
        None \<Rightarrow> currency_symbols_loop e locales symbols
      | Some currency \<Rightarrow>
          if currency \<noteq> [] then currency_symbols_loop e locales (List.insert (py_strip currency) symbols)
          else currency_symbols_loop e locales symbols)"

definition priv_currency_symbols :: "env \<Rightarrow> error + string list" where
  "priv_currency_symbols e =
     (case getlocale e of
        Inl err \<Rightarrow> Inl err
      | Inr current \<Rightarrow>
          (let symbols = currency_symbols_loop e (locale_alias_values e) [] in
             if restore_locale_fails e current then Inl LocaleError else Inr symbols))"

text \<open>
  \<^verbatim>\<open>UserPreferenceSerializer._generic_validation(data, field, iterable)\<close>.  The
  guard is \<^verbatim>\<open>data.get('name') is not field\<close>, a comparison of objects, where
  \<^verbatim>\<open>field\<close> is a string constant of the module.  \<^verbatim>\<open>data.get('preference', dict)\<close>
  is the class \<^verbatim>\<open>dict\<close> when the key is absent, and \<^verbatim>\<open>dict.get(field)\<close> on the
  class raises \<^verbatim>\<open>TypeError\<close>; a preference that is not a dictionary has no
  \<^verbatim>\<open>get\<close> and raises \<^verbatim>\<open>AttributeError\<close>.
\<close>

definition UserPreferenceSerializer_generic_validation ::
  "pydict \<Rightarrow> string \<Rightarrow> string list \<Rightarrow> error + unit" where
  "UserPreferenceSerializer_generic_validation data field iterable =
     (if \<not> py_is_literal (dict_get data ''name'') field then Inr ()
      else
        (case dict_get_default data ''preference'' PDictType of
           PDict d \<Rightarrow>
             (let pref = dict_get d field in
                if \<not> py_in pref iterable then Inl (ValidationError (InvalidPreference field pref))
                else Inr ())
         | PDictType \<Rightarrow> Inl TypeError
         | _ \<Rightarrow> Inl AttributeError))"

definition UserPreferenceSerializer_validate_locale :: "env \<Rightarrow> pydict \<Rightarrow> error + unit" where
  "UserPreferenceSerializer_validate_locale e data =
     UserPreferenceSerializer_generic_validation data ''locale'' (locale_alias_values e)"

definition UserPreferenceSerializer_validate_currency :: "env \<Rightarrow> pydict \<Rightarrow> error + unit" where
  "UserPreferenceSerializer_validate_currency e data =
     (case priv_currency_symbols e of
        Inl err \<Rightarrow> Inl err
      | Inr symbols \<Rightarrow> UserPreferenceSerializer_generic_validation data ''currency'' symbols)"

definition UserPreferenceSerializer_validate_timezone :: "env \<Rightarrow> pydict \<Rightarrow> error + unit" where
  "UserPreferenceSerializer_validate_timezone e data =
     UserPreferenceSerializer_generic_validation data ''timezone'' (all_timezones e)"

definition UserPreferenceSerializer_validate :: "env \<Rightarrow> pydict \<Rightarrow> error + pydict" where
  "UserPreferenceSerializer_validate e data =
     (case UserPreferenceSerializer_validate_locale e data of
        Inl err \<Rightarrow> Inl err
      | Inr _ \<Rightarrow>
          (case UserPreferenceSerializer_validate_currency e data of
             Inl err \<Rightarrow> Inl err
           | Inr _ \<Rightarrow>
               (case UserPreferenceSerializer_validate_timezone e data of
                  Inl err \<Rightarrow> Inl err
                | Inr _ \<Rightarrow> Inr data)))"

section \<open>The world: database, sequences, randomness, emails\<close>

text \<open>
  The state the module acts on.  \<open>rows\<close> is the content of the database, in the
  order of insertion; it is what a transaction rolls back.  \<open>next_id\<close> is the
  sequence of primary keys, \<open>drawn\<close> counts the random numbers taken from the
  environment, and \<open>email_calls\<close> records the calls of
  \<^verbatim>\<open>new_user_login_email\<close>; none of the three is rolled back.
\<close>

record world =
  rows :: "row list"
  next_id :: nat
  drawn :: nat
  email_calls :: "email_call list"

text \<open>
  A statement that may raise is a function from the world to a result and the world it
  leaves behind; after an exception the world keeps the writes made so far.
\<close>

type_synonym 'a action = "world \<Rightarrow> (error + 'a) \<times> world"

definition returns :: "'a \<Rightarrow> 'a action" where
  "returns x w = (Inr x, w)"

definition lift_result :: "error + 'a \<Rightarrow> 'a action" where
  "lift_result r w = (r, w)"

definition and_then :: "'a action \<Rightarrow> ('a \<Rightarrow> 'b action) \<Rightarrow> 'b action" where
  "and_then f g w = (case f w of (Inl err, w') \<Rightarrow> (Inl err, w') | (Inr x, w') \<Rightarrow> g x w')"

text \<open>
  \<^verbatim>\<open>@transaction.atomic\<close>: when the body raises, the database is rolled back to its
  content at entry and the exception propagates.
\<close>

definition atomic :: "'a action \<Rightarrow> 'a action" where
  "atomic body w =
     (case body w of
        (Inl err, w') \<Rightarrow> (Inl err, w'\<lparr>rows := rows w\<rparr>)
      | (Inr x, w') \<Rightarrow> (Inr x, w'))"

definition draw :: "env \<Rightarrow> world \<Rightarrow> nat \<times> world" where
  "draw e w = (entropy e (drawn w), w\<lparr>drawn := Suc (drawn w)\<rparr>)"

definition nextval :: "world \<Rightarrow> nat \<times> world" where
  "nextval w = (next_id w, w\<lparr>next_id := Suc (next_id w)\<rparr>)"

text \<open>\<^verbatim>\<open>uuid.uuid4()\<close>, a random 128-bit value, and \<^verbatim>\<open>str\<close> of a UUID.\<close>

definition uuid4 :: "env \<Rightarrow> world \<Rightarrow> uuid \<times> world" where
  "uuid4 e w = (case draw e w of (r, w') \<Rightarrow> (UUID (r mod 2 ^ 128), w'))"

definition hex_digit :: "nat \<Rightarrow> char" where
  "hex_digit n = ''0123456789abcdef'' ! (n mod 16)"

fun hex_digits :: "nat \<Rightarrow> nat \<Rightarrow> string" where
  "hex_digits 0 n = []"
| "hex_digits (Suc k) n = hex_digits k (n div 16) @ [hex_digit n]"

fun str_uuid :: "uuid \<Rightarrow> string" where
  "str_uuid (UUID n) =
     (let h = hex_digits 32 n in
        take 8 h @ ''-'' @ take 4 (drop 8 h) @ ''-'' @ take 4 (drop 12 h) @ ''-''
        @ take 4 (drop 16 h) @ ''-'' @ drop 20 h)"

text \<open>
  \<^verbatim>\<open>secrets.choice(seq)\<close>: a random element; \<^verbatim>\<open>IndexError\<close> on an empty sequence.
\<close>

definition secrets_choice :: "env \<Rightarrow> string \<Rightarrow> char action" where
  "secrets_choice e seq w =
     (if seq = [] then (Inl IndexError, w)
      else (case draw e w of (r, w') \<Rightarrow> (Inr (seq ! (r mod length seq)), w')))"

text \<open>
  \<^verbatim>\<open>_gen_temp_password\<close>:
  \<^verbatim>\<open>''.join(secrets.choice(choices) for i in range(10))\<close>.
\<close>

definition string_digits :: string where
  "string_digits = ''0123456789''"

definition string_ascii_uppercase :: string where
  "string_ascii_uppercase = ''ABCDEFGHIJKLMNOPQRSTUVWXYZ''"

definition string_ascii_lowercase :: string where
  "string_ascii_lowercase = ''abcdefghijklmnopqrstuvwxyz''"

definition choices :: string where
  "choices = ''!@#$%^&*()_+'' @ string_digits @ string_ascii_uppercase @ string_ascii_lowercase"

fun join_choices :: "env \<Rightarrow> string \<Rightarrow> nat \<Rightarrow> string action" where
  "join_choices e seq 0 = returns []"
| "join_choices e seq (Suc n) =
     and_then (secrets_choice e seq) (\<lambda>c.
     and_then (join_choices e seq n) (\<lambda>cs.
     returns (c # cs)))"

definition priv_gen_temp_password :: "env \<Rightarrow> string action" where
  "priv_gen_temp_password e = join_choices e choices 10"

section \<open>The object-relational layer\<close>

text \<open>
  Modelled from the spec: the managers and instance methods of the models, which the
  sources at hand only call.  An insert appends one row unless a constraint of the
  database rejects it.
\<close>

definition insert_row :: "env \<Rightarrow> row \<Rightarrow> unit action" where
  "insert_row e r w =
     (if db_rejects e (rows w) r then (Inl IntegrityError, w)
      else (Inr (), w\<lparr>rows := rows w @ [r]\<rparr>))"

fun users :: "row list \<Rightarrow> user list" where
  "users [] = []"
| "users (UserRow u # rs) = u # users rs"
| "users (r # rs) = users rs"

text \<open>
  \<^verbatim>\<open>normalize_email\<close> of Django's user manager: the email is stripped and split at
  its last \<^verbatim>\<open>@\<close>, and the domain part is lowercased; an email without \<^verbatim>\<open>@\<close> is
  returned as it was given.
\<close>

definition normalize_email :: "string \<Rightarrow> string" where
  "normalize_email email =
     (let s = py_strip email in
        if CHR ''@'' \<notin> set s then email
        else
          (let domain_part = rev (takeWhile (\<lambda>c. c \<noteq> CHR ''@'') (rev s));
               email_name = rev (tl (dropWhile (\<lambda>c. c \<noteq> CHR ''@'') (rev s)))
           in email_name @ ''@'' @ py_lower domain_part))"

text \<open>
  \<^verbatim>\<open>User.objects.create_user(username=, email=, password=)\<close>, the method of Django's
  user manager: one new user row with a fresh uuid.  The username is stored in the
  normal form NFKC, the email with its domain part lowercased.  \<open>user_password\<close> is
  the password handed to \<^verbatim>\<open>set_password\<close>; the database keeps a hash of it, which
  nothing here reads.
\<close>

definition User_objects_create_user :: "env \<Rightarrow> string \<Rightarrow> string \<Rightarrow> string \<Rightarrow> user action" where
  "User_objects_create_user e uname mail pass w =
     (case uuid4 e w of (uid, w1) \<Rightarrow>
      case nextval w1 of (i, w2) \<Rightarrow>
        (let u = \<lparr>user_id = i, user_uuid = uid, user_username = nfkc e uname,
                  user_email = normalize_email mail, user_password = pass\<rparr>
         in and_then (insert_row e (UserRow u)) (\<lambda>_. returns u) w2))"

text \<open>\<^verbatim>\<open>User.objects.get(username=)\<close>: the one user of that name.\<close>

definition User_objects_get :: "string \<Rightarrow> user action" where
  "User_objects_get uname w =
     (case filter (\<lambda>u. user_username u = uname) (users (rows w)) of
        [] \<Rightarrow> (Inl DoesNotExist, w)
      | [u] \<Rightarrow> (Inr u, w)
      | _ \<Rightarrow> (Inl MultipleObjectsReturned, w))"

text \<open>
  \<^verbatim>\<open>UserPreference.objects.create(**validated_data)\<close>.  The migration
  \<^verbatim>\<open>0010_auto_20180523_1540\<close> gives \<^verbatim>\<open>name\<close> the default \<^verbatim>\<open>uuid.uuid4\<close>, used
  when the data has no name.
\<close>

definition UserPreference_objects_create :: "env \<Rightarrow> pydict \<Rightarrow> preference action" where
  "UserPreference_objects_create e kwargs w =
     (case uuid4 e w of (uid, w1) \<Rightarrow>
      case (case map_of kwargs ''name'' of
              Some v \<Rightarrow> (v, w1)
            | None \<Rightarrow> (case uuid4 e w1 of (n, w') \<Rightarrow> (PStr False (str_uuid n), w'))) of (nm, w2) \<Rightarrow>
      case nextval w2 of (i, w3) \<Rightarrow>
        (let p = \<lparr>pref_id = i, pref_uuid = uid, pref_name = nm,
                  pref_description = dict_get kwargs ''description'',
                  pref_preference = dict_get kwargs ''preference'',
                  pref_user_id = dict_get kwargs ''user_id''\<rparr>
         in and_then (insert_row e (PrefRow p)) (\<lambda>_. returns p) w3))"

text \<open>\<^verbatim>\<open>reset_token = ResetToken(user=user); reset_token.save()\<close>.\<close>

definition ResetToken_save :: "env \<Rightarrow> user \<Rightarrow> reset_token action" where
  "ResetToken_save e u w =
     (case uuid4 e w of (tok, w1) \<Rightarrow>
      case nextval w1 of (i, w2) \<Rightarrow>
        (let t = \<lparr>token_id = i, token = tok, token_user_id = user_id u\<rparr>
         in and_then (insert_row e (TokenRow t)) (\<lambda>_. returns t) w2))"

text \<open>\<^verbatim>\<open>Customer.objects.create(name=, owner_id=, schema_name=)\<close>.\<close>

definition Customer_objects_create :: "env \<Rightarrow> string \<Rightarrow> nat \<Rightarrow> string \<Rightarrow> customer action" where
  "Customer_objects_create e nm owner_id sname w =
     (case uuid4 e w of (uid, w1) \<Rightarrow>
      case nextval w1 of (i, w2) \<Rightarrow>
        (let c = \<lparr>customer_id = i, customer_uuid = uid, customer_name = nm,
                  customer_owner_id = owner_id, customer_schema_name = sname\<rparr>
         in and_then (insert_row e (CustomerRow c)) (\<lambda>_. returns c) w2))"

text \<open>
  \<^verbatim>\<open>customer.user_set.add(owner)\<close>: the membership row is inserted unless it is there.
\<close>

definition customer_user_set_add :: "env \<Rightarrow> customer \<Rightarrow> user \<Rightarrow> unit action" where
  "customer_user_set_add e c u w =
     (if MemberRow (customer_id c) (user_id u) \<in> set (rows w) then (Inr (), w)
      else insert_row e (MemberRow (customer_id c) (user_id u)) w)"

text \<open>\<^verbatim>\<open>customer.save()\<close>: the row of this customer is written again.\<close>

fun save_over :: "customer \<Rightarrow> row \<Rightarrow> row" where
  "save_over c (CustomerRow c') = (if customer_id c' = customer_id c then CustomerRow c else CustomerRow c')"
| "save_over c r = r"

definition customer_save :: "customer \<Rightarrow> unit action" where
  "customer_save c w = (Inr (), w\<lparr>rows := map (save_over c) (rows w)\<rparr>)"

text \<open>
  \<^verbatim>\<open>new_user_login_email(username, email, uuid, token)\<close>, of \<^verbatim>\<open>koku/api/iam/email.py\<close>:
  the call is recorded; whether it raises is the environment's.
\<close>

definition new_user_login_email :: "env \<Rightarrow> email_call \<Rightarrow> unit action" where
  "new_user_login_email e call w =
     ((if email_fails e call then Inl EmailError else Inr ()),
      w\<lparr>email_calls := email_calls w @ [call]\<rparr>)"

section \<open>Creating a user\<close>

text \<open>
  \<^verbatim>\<open>model_to_dict(user)\<close>, and the part of \<^verbatim>\<open>serializer.is_valid\<close> and
  \<^verbatim>\<open>serializer.save\<close> that \<^verbatim>\<open>UserPreferenceSerializer\<close> writes itself.  Of the
  declared fields, \<^verbatim>\<open>uuid\<close> and \<^verbatim>\<open>user\<close> are read-only: the validated data keeps
  \<^verbatim>\<open>name\<close>, \<^verbatim>\<open>description\<close> and \<^verbatim>\<open>preference\<close>, in this order, and
  \<^verbatim>\<open>validate\<close> runs on it.  The validation of the single generated fields is not
  modelled.
\<close>

definition model_to_dict :: "user \<Rightarrow> pydict" where
  "model_to_dict u =
     [(''id'', PInt (int (user_id u))),
      (''password'', PStr False (user_password u)),
      (''username'', PStr False (user_username u)),
      (''email'', PStr False (user_email u))]"

definition to_internal_value :: "pydict \<Rightarrow> pydict" where
  "to_internal_value data =
     List.map_filter (\<lambda>k. map_option (Pair k) (map_of data k))
       [''name'', ''description'', ''preference'']"

definition UserPreferenceSerializer_is_valid :: "env \<Rightarrow> pydict \<Rightarrow> pydict action" where
  "UserPreferenceSerializer_is_valid e data =
     lift_result (UserPreferenceSerializer_validate e (to_internal_value data))"

text \<open>
  \<^verbatim>\<open>UserPreferenceSerializer.create\<close>: the user of the context is looked up by name
  and its id is added to the validated data.
\<close>

definition UserPreferenceSerializer_create :: "env \<Rightarrow> user \<Rightarrow> pydict \<Rightarrow> preference action" where
  "UserPreferenceSerializer_create e context_user validated_data =
     atomic
       (and_then (User_objects_get (user_username context_user)) (\<lambda>u.
        UserPreference_objects_create e
          (AList.update ''user_id'' (PInt (int (user_id u))) validated_data)))"

text \<open>
  \<^verbatim>\<open>_create_default_preferences\<close>: the three defaults, in the order of the source.
  The name of each is the key object of the dictionary literal, an interned constant.
\<close>

definition defaults :: "env \<Rightarrow> (string \<times> pyval) list" where
  "defaults e =
     [(''currency'', KOKU_DEFAULT_CURRENCY e),
      (''timezone'', KOKU_DEFAULT_TIMEZONE e),
      (''locale'', KOKU_DEFAULT_LOCALE e)]"

definition default_data :: "env \<Rightarrow> user \<Rightarrow> string \<times> pyval \<Rightarrow> pydict" where
  "default_data e u pref =
     [(''preference'', PDict [pref]),
      (''user'', PDict (model_to_dict u)),
      (''name'', PStr True (fst pref)),
      (''description'', PStr False (gettext e ''default preference''))]"

fun default_preferences_loop :: "env \<Rightarrow> user \<Rightarrow> (string \<times> pyval) list \<Rightarrow> unit action" where
  "default_preferences_loop e u [] = returns ()"
| "default_preferences_loop e u (pref # prefs) =
     and_then (UserPreferenceSerializer_is_valid e (default_data e u pref)) (\<lambda>validated_data.
     and_then (UserPreferenceSerializer_create e u validated_data) (\<lambda>_.
     default_preferences_loop e u prefs))"

definition priv_create_default_preferences :: "env \<Rightarrow> user \<Rightarrow> unit action" where
  "priv_create_default_preferences e u = default_preferences_loop e u (defaults e)"

text \<open>
  \<^verbatim>\<open>_create_user(username, email, password)\<close>.  \<^verbatim>\<open>if password:\<close> is false for
  \<^verbatim>\<open>None\<close> and for the empty string.
\<close>

definition priv_create_user :: "env \<Rightarrow> string \<Rightarrow> string \<Rightarrow> string option \<Rightarrow> user action" where
  "priv_create_user e uname mail password =
     and_then
       (case password of
          Some p \<Rightarrow> if p \<noteq> [] then returns p else priv_gen_temp_password e
        | None \<Rightarrow> priv_gen_temp_password e) (\<lambda>user_pass.
     and_then (User_objects_create_user e uname mail user_pass) (\<lambda>u.
     and_then (priv_create_default_preferences e u) (\<lambda>_.
     and_then (ResetToken_save e u) (\<lambda>reset_token.
     and_then (new_user_login_email e
                 (uname, mail, str_uuid (user_uuid u), str_uuid (token reset_token))) (\<lambda>_.
     returns u)))))"

section \<open>The serializers of users and customers\<close>

record user_data =
  ud_username :: string
  ud_email :: string
  ud_password :: "string option"

record customer_data =
  cd_name :: string
  cd_owner :: user_data

text \<open>\<^verbatim>\<open>UserSerializer.create\<close>, under \<^verbatim>\<open>@transaction.atomic\<close>.\<close>

definition UserSerializer_create :: "env \<Rightarrow> user_data \<Rightarrow> user action" where
  "UserSerializer_create e validated_data =
     atomic (priv_create_user e (ud_username validated_data) (ud_email validated_data)
               (ud_password validated_data))"

text \<open>
  The body of \<^verbatim>\<open>CustomerSerializer.create\<close>, and the method under
  \<^verbatim>\<open>@transaction.atomic\<close>.
\<close>

definition CustomerSerializer_create_body :: "env \<Rightarrow> customer_data \<Rightarrow> customer action" where
  "CustomerSerializer_create_body e validated_data =
     (let owner_data = cd_owner validated_data in
      and_then (priv_create_user e (ud_username owner_data) (ud_email owner_data)
                  (ud_password owner_data)) (\<lambda>owner.
      (let name = cd_name validated_data in
       and_then (Customer_objects_create e name (user_id owner) (priv_create_schema_name name)) (\<lambda>c.
       and_then (customer_user_set_add e c owner) (\<lambda>_.
       and_then (customer_save c) (\<lambda>_.
       returns c))))))"

definition CustomerSerializer_create :: "env \<Rightarrow> customer_data \<Rightarrow> customer action" where
  "CustomerSerializer_create e validated_data =
     atomic (CustomerSerializer_create_body e validated_data)"

text \<open>
  The \<^verbatim>\<open>email\<close> field of \<^verbatim>\<open>UserSerializer\<close>: required, not blank, at most 150
  characters, validated by \<^verbatim>\<open>validate_email\<close> and by
  \<^verbatim>\<open>UniqueValidator(queryset=User.objects.all())\<close>.  The value is stripped of
  surrounding whitespace first.  \<^verbatim>\<open>NestedUserSerializer\<close> declares the same field
  without the uniqueness validator; it is used as a read-only field only.
\<close>

definition UserSerializer_email :: "env \<Rightarrow> row list \<Rightarrow> string option \<Rightarrow> error + string" where
  "UserSerializer_email e rs raw =
     (case raw of
        None \<Rightarrow> Inl (ValidationError (FieldError ''email'' ''required''))
      | Some s \<Rightarrow>
          (let v = py_strip s in
             if v = [] then Inl (ValidationError (FieldError ''email'' ''blank''))
             else if 150 < length v then Inl (ValidationError (FieldError ''email'' ''max_length''))
             else if \<not> validate_email e v then Inl (ValidationError (FieldError ''email'' ''invalid''))
             else if v \<in> set (map user_email (users rs))
               then Inl (ValidationError (FieldError ''email'' ''unique''))
             else Inr v))"

definition NestedUserSerializer_email :: "env \<Rightarrow> string option \<Rightarrow> error + string" where
  "NestedUserSerializer_email e raw =
     (case raw of
        None \<Rightarrow> Inl (ValidationError (FieldError ''email'' ''required''))
      | Some s \<Rightarrow>
          (let v = py_strip s in
             if v = [] then Inl (ValidationError (FieldError ''email'' ''blank''))
             else if 150 < length v then Inl (ValidationError (FieldError ''email'' ''max_length''))
             else if \<not> validate_email e v then Inl (ValidationError (FieldError ''email'' ''invalid''))
             else Inr v))"

text \<open>
  Creation through a serializer: \<^verbatim>\<open>is_valid(raise_exception=True)\<close>, then
  \<^verbatim>\<open>save()\<close>, which calls \<^verbatim>\<open>create\<close> with the validated data.  The owner of a
  customer is validated by the nested \<^verbatim>\<open>UserSerializer\<close>.
\<close>

record user_input =
  in_username :: string
  in_email :: "string option"
  in_password :: "string option"

record customer_input =
  in_name :: string
  in_owner :: user_input

definition UserSerializer_is_valid :: "env \<Rightarrow> row list \<Rightarrow> user_input \<Rightarrow> error + user_data" where
  "UserSerializer_is_valid e rs inp =
     (case UserSerializer_email e rs (in_email inp) of
        Inl err \<Rightarrow> Inl err
      | Inr mail \<Rightarrow>
          (case clean_user_fields e rs (in_username inp) (in_password inp) of
             None \<Rightarrow> Inl (ValidationError (FieldError ''user'' ''invalid''))
           | Some (uname, pass) \<Rightarrow>
               Inr \<lparr>ud_username = uname, ud_email = mail, ud_password = pass\<rparr>))"

definition UserSerializer_save :: "env \<Rightarrow> user_input \<Rightarrow> user action" where
  "UserSerializer_save e inp w =
     (case UserSerializer_is_valid e (rows w) inp of
        Inl err \<Rightarrow> (Inl err, w)
      | Inr validated_data \<Rightarrow> UserSerializer_create e validated_data w)"

definition CustomerSerializer_is_valid :: "env \<Rightarrow> row list \<Rightarrow> customer_input \<Rightarrow> error + customer_data" where
  "CustomerSerializer_is_valid e rs inp =
     (case UserSerializer_is_valid e rs (in_owner inp) of
        Inl err \<Rightarrow> Inl err
      | Inr owner_data \<Rightarrow>
          (case clean_customer_name e rs (in_name inp) of
             None \<Rightarrow> Inl (ValidationError (FieldError ''name'' ''invalid''))
           | Some nm \<Rightarrow> Inr \<lparr>cd_name = nm, cd_owner = owner_data\<rparr>))"

definition CustomerSerializer_save :: "env \<Rightarrow> customer_input \<Rightarrow> customer action" where
  "CustomerSerializer_save e inp w =
     (case CustomerSerializer_is_valid e (rows w) inp of
        Inl err \<Rightarrow> (Inl err, w)
      | Inr validated_data \<Rightarrow> CustomerSerializer_create e validated_data w)"

text \<open>A sequence of creation requests, each run to its end, whatever its outcome.\<close>

datatype request = CreateUser user_input | CreateCustomer customer_input

fun serve :: "env \<Rightarrow> request \<Rightarrow> world \<Rightarrow> world" where
  "serve e (CreateUser inp) w = snd (UserSerializer_save e inp w)"
| "serve e (CreateCustomer inp) w = snd (CustomerSerializer_save e inp w)"

fun serve_all :: "env \<Rightarrow> request list \<Rightarrow> world \<Rightarrow> world" where
  "serve_all e [] w = w"
| "serve_all e (r # rs) w = serve_all e rs (serve e r w)"

section \<open>The migration \<^verbatim>\<open>0010_auto_20180523_1540\<close>\<close>

text \<open>
  The operations of the migration as data, and what each does to the state of the
  models.  \<^verbatim>\<open>AddField\<close> appends a field to a model.  \<^verbatim>\<open>AlterModelOptions\<close> sets
  the options it names and removes every other option that this operation is able to
  alter; the list of those option keys is Django's and is a parameter here.
\<close>

datatype field_default = NoDefault | Callable string

record char_field =
  max_length :: nat
  null :: bool
  default :: field_default

datatype operation =
    AlterModelOptions string "(string \<times> string list) list"
  | AddField string string char_field

definition dependencies :: "(string \<times> string) list" where
  "dependencies = [(''api'', ''0009_auto_20180523_0045'')]"

definition operations :: "operation list" where
  "operations =
     [AlterModelOptions ''userpreference'' [(''ordering'', [''name''])],
      AddField ''userpreference'' ''description''
        \<lparr>max_length = 255, null = True, default = NoDefault\<rparr>,
      AddField ''userpreference'' ''name''
        \<lparr>max_length = 255, null = False, default = Callable ''uuid.uuid4''\<rparr>]"

record model_state =
  model_options :: "string \<Rightarrow> string list option"
  model_fields :: "(string \<times> char_field) list"

type_synonym project_state = "string \<Rightarrow> model_state"

fun state_forwards :: "string list \<Rightarrow> operation \<Rightarrow> project_state \<Rightarrow> project_state" where
  "state_forwards alter_option_keys (AlterModelOptions m opts) st =
     st(m := (st m)\<lparr>model_options :=
        (\<lambda>k. case map_of opts k of
                Some v \<Rightarrow> Some v
              | None \<Rightarrow> if k \<in> set alter_option_keys then None else model_options (st m) k)\<rparr>)"
| "state_forwards alter_option_keys (AddField m f fld) st =
     st(m := (st m)\<lparr>model_fields := model_fields (st m) @ [(f, fld)]\<rparr>)"

definition migrate :: "string list \<Rightarrow> operation list \<Rightarrow> project_state \<Rightarrow> project_state" where
  "migrate alter_option_keys ops st = fold (state_forwards alter_option_keys) ops st"

fun added_fields :: "operation list \<Rightarrow> (string \<times> string \<times> char_field) list" where
  "added_fields [] = []"
| "added_fields (AddField m f fld # ops) = (m, f, fld) # added_fields ops"
| "added_fields (opn # ops) = added_fields ops"

fun altered_options :: "operation list \<Rightarrow> (string \<times> (string \<times> string list) list) list" where
  "altered_options [] = []"
| "altered_options (AlterModelOptions m opts # ops) = (m, opts) # altered_options ops"
| "altered_options (opn # ops) = altered_options ops"

section \<open>An example environment\<close>

text \<open>
  A small environment on which the definitions can be run: two locale aliases, of which
  one can be set and has the currency symbol \<^verbatim>\<open>USD\<close>, a current locale that can
  be set back, one timezone, defaults that are valid, a database without constraints and
  an email transport that works.
\<close>

definition example_env :: env where
  "example_env =
     \<lparr>locale_alias_values = [''en_US.ISO8859-1'', ''xx_XX.UTF-8''],
      int_curr_symbol = (\<lambda>loc. if loc = ''en_US.ISO8859-1'' then Some ''USD '' else None),
      getlocale = Inr ''en_US.UTF-8'',
      restore_locale_fails = (\<lambda>current. False),
      nfkc = (\<lambda>s. s),
      all_timezones = [''UTC''],
      KOKU_DEFAULT_CURRENCY = PStr False ''USD'',
      KOKU_DEFAULT_TIMEZONE = PStr False ''UTC'',
      KOKU_DEFAULT_LOCALE = PStr False ''en_US.ISO8859-1'',
      gettext = (\<lambda>s. s),
      entropy = (\<lambda>n. 7 * n + 3),
      db_rejects = (\<lambda>rs r. False),
      email_fails = (\<lambda>call. False),
      validate_email = (\<lambda>s. CHR ''@'' \<in> set s),
      clean_user_fields = (\<lambda>rs uname pass. Some (uname, pass)),
      clean_customer_name = (\<lambda>rs nm. Some nm)\<rparr>"

definition empty_world :: world where
  "empty_world = \<lparr>rows = [], next_id = 1, drawn = 0, email_calls = []\<rparr>"

text \<open>
  A customer with its owner, an environment whose database rejects every customer row,
  one whose random numbers are all zero, and one where the monetary locale cannot be set
  back to the current locale.
\<close>

definition example_owner :: user_data where
  "example_owner = \<lparr>ud_username = ''alice'', ud_email = ''a@x.org'', ud_password = Some ''pw''\<rparr>"

definition example_customer :: customer_data where
  "example_customer = \<lparr>cd_name = ''Big_Co.'', cd_owner = example_owner\<rparr>"

fun is_customer_row :: "row \<Rightarrow> bool" where
  "is_customer_row (CustomerRow c) = True"
| "is_customer_row r = False"

definition rejecting_env :: env where
  "rejecting_env = example_env\<lparr>db_rejects := (\<lambda>rs r. is_customer_row r)\<rparr>"

definition constant_env :: env where
  "constant_env = example_env\<lparr>entropy := (\<lambda>n. 0)\<rparr>"

definition unrestorable_env :: env where
  "unrestorable_env = example_env\<lparr>restore_locale_fails := (\<lambda>current. True)\<rparr>"

section \<open>Validation of a preference: properties\<close>

lemma generic_validation_skips:
  "\<not> py_eq_literal (dict_get data ''name'') field \<Longrightarrow>
   UserPreferenceSerializer_generic_validation data field iterable = Inr ()"
  by (cases "dict_get data ''name''")
     (auto simp: UserPreferenceSerializer_generic_validation_def)

lemma validate_Inr: "UserPreferenceSerializer_validate e data = Inr r \<Longrightarrow> r = data"
  by (auto simp: UserPreferenceSerializer_validate_def split: sum.splits)

lemma example_currency_symbols: "priv_currency_symbols example_env = Inr [''USD'']"
  by (simp add: priv_currency_symbols_def example_env_def py_strip_def py_isspace_def Let_def)

lemma example_iterables:
  "all_timezones example_env = [''UTC'']"
  "locale_alias_values example_env = [''en_US.ISO8859-1'', ''xx_XX.UTF-8'']"
  by (simp_all add: example_env_def)

lemma unrestorable_currency_symbols: "priv_currency_symbols unrestorable_env = Inl LocaleError"
  by (simp add: priv_currency_symbols_def unrestorable_env_def example_env_def Let_def)

lemmas validate_defs =
  UserPreferenceSerializer_validate_def UserPreferenceSerializer_validate_locale_def
  UserPreferenceSerializer_validate_currency_def UserPreferenceSerializer_validate_timezone_def
  UserPreferenceSerializer_generic_validation_def dict_get_def dict_get_default_def

text \<open>
  When the name is the interned constant itself and the preference is a dictionary, the
  check is made: the validation raises exactly when the value is not in the iterable.
\<close>

lemma generic_validation_interned:
  assumes "dict_get data ''name'' = PStr True field"
    and "dict_get_default data ''preference'' PDictType = PDict d"
  shows "UserPreferenceSerializer_generic_validation data field iterable =
           (if py_in (dict_get d field) iterable then Inr ()
            else Inl (ValidationError (InvalidPreference field (dict_get d field))))"
  using assms by (simp add: UserPreferenceSerializer_generic_validation_def)

text \<open>
  C2.  For a name equal to \<^verbatim>\<open>'currency'\<close>, validation is claimed to raise exactly when
  the value is not one of the currency symbols.  At this input the name has the text
  \<^verbatim>\<open>currency\<close> but is not the interned constant of the module (a string parsed from a
  request body is such an object), the value \<^verbatim>\<open>XYZ\<close> is not a currency symbol, and
  \<^verbatim>\<open>validate\<close> returns the data without raising: every guard
  \<^verbatim>\<open>data.get('name') is not field\<close> holds, so no check is made.
\<close>

theorem validate_accepts_invalid_currency:
  "UserPreferenceSerializer_validate example_env
     [(''name'', PStr False ''currency''),
      (''preference'', PDict [(''currency'', PStr False ''XYZ'')])]
   = Inr [(''name'', PStr False ''currency''),
          (''preference'', PDict [(''currency'', PStr False ''XYZ'')])]
   \<and> py_eq_literal (PStr False ''currency'') ''currency''
   \<and> priv_currency_symbols example_env = Inr [''USD'']
   \<and> \<not> py_in (PStr False ''XYZ'') [''USD'']"
  by (simp add: example_currency_symbols validate_defs)

text \<open>
  C9.  \<^verbatim>\<open>UserPreferenceSerializer.validate\<close> is the identity on its input: whenever
  it does not raise, it returns the data dictionary it was given, unmodified.
\<close>

theorem validate_returns_its_input:
  "UserPreferenceSerializer_validate e data = Inr result \<Longrightarrow> result = data"
  by (rule validate_Inr)

theorem validate_returns_its_input_witness:
  "UserPreferenceSerializer_validate example_env
     [(''name'', PStr True ''timezone''), (''preference'', PDict [(''timezone'', PStr False ''UTC'')])]
   = Inr [(''name'', PStr True ''timezone''), (''preference'', PDict [(''timezone'', PStr False ''UTC'')])]"
proof -
  have "\<exists>result. UserPreferenceSerializer_validate example_env
     [(''name'', PStr True ''timezone''), (''preference'', PDict [(''timezone'', PStr False ''UTC'')])]
     = Inr result"
    by (simp add: validate_defs example_currency_symbols example_iterables)
  then obtain result where h: "UserPreferenceSerializer_validate example_env
     [(''name'', PStr True ''timezone''), (''preference'', PDict [(''timezone'', PStr False ''UTC'')])]
     = Inr result" ..
  from validate_returns_its_input[OF h] h show ?thesis by simp
qed

text \<open>
  C10 (as amended).  For every input whose name is none of \<^verbatim>\<open>'locale'\<close>,
  \<^verbatim>\<open>'currency'\<close> and \<^verbatim>\<open>'timezone'\<close> (compared as text; an absent name or a name
  that is not a string included), \<^verbatim>\<open>validate\<close> accepts the input without raising,
  whatever the preference value is, provided that \<^verbatim>\<open>_currency_symbols()\<close>, which
  \<^verbatim>\<open>validate\<close> evaluates for every input, does not itself raise; when it does, that
  exception leaves \<^verbatim>\<open>validate\<close>.
\<close>

theorem validate_accepts_other_names:
  "\<not> py_eq_literal (dict_get data ''name'') ''locale'' \<Longrightarrow>
   \<not> py_eq_literal (dict_get data ''name'') ''currency'' \<Longrightarrow>
   \<not> py_eq_literal (dict_get data ''name'') ''timezone'' \<Longrightarrow>
   UserPreferenceSerializer_validate e data =
     (case priv_currency_symbols e of Inl err \<Rightarrow> Inl err | Inr symbols \<Rightarrow> Inr data)"
  by (simp add: UserPreferenceSerializer_validate_def UserPreferenceSerializer_validate_locale_def
      UserPreferenceSerializer_validate_currency_def UserPreferenceSerializer_validate_timezone_def
      generic_validation_skips split: sum.splits)

theorem validate_accepts_other_names_witness:
  "UserPreferenceSerializer_validate example_env
     [(''name'', PStr True ''theme''), (''preference'', PInt 7)]
   = Inr [(''name'', PStr True ''theme''), (''preference'', PInt 7)]"
  using validate_accepts_other_names[where e = example_env
      and data = "[(''name'', PStr True ''theme''), (''preference'', PInt 7)]"]
  by (simp add: dict_get_def dict_get_default_def example_currency_symbols)

text \<open>
  C10 as it is stated fails: where the monetary locale cannot be set back to the current
  locale, \<^verbatim>\<open>_currency_symbols()\<close> raises \<^verbatim>\<open>locale.Error\<close>, and so does
  \<^verbatim>\<open>validate\<close> on an input whose name is \<^verbatim>\<open>theme\<close>.
\<close>

theorem validate_raises_for_other_name:
  "UserPreferenceSerializer_validate unrestorable_env
     [(''name'', PStr True ''theme''), (''preference'', PInt 7)]
   = Inl LocaleError"
  by (simp add: validate_defs unrestorable_currency_symbols)

section \<open>Schema names: properties\<close>

lemma filter_dropWhile_not: "filter (\<lambda>c. \<not> P c) (dropWhile P xs) = filter (\<lambda>c. \<not> P c) xs"
  by (induction xs) auto

lemma re_sub_class_plus_empty: "re_sub_class_plus cls [] s = filter (\<lambda>c. \<not> cls c) s"
  by (induction cls "[] :: string" s rule: re_sub_class_plus.induct)
     (auto simp: filter_dropWhile_not)

lemma schema_class: "(\<not> re_nonword c \<and> c \<noteq> CHR ''_'') = py_isalnum c"
  by (auto simp: re_nonword_def re_word_def py_isalnum_def)

lemma priv_create_schema_name_eq:
  "priv_create_schema_name nm = py_lower (filter py_isalnum nm)"
  by (simp add: priv_create_schema_name_def re_sub_class_plus_empty schema_class)

section \<open>Actions: what a successful run leaves behind\<close>

lemma and_then_Inr:
  "and_then f g w = (Inr y, w') \<longleftrightarrow> (\<exists>x w1. f w = (Inr x, w1) \<and> g x w1 = (Inr y, w'))"
  by (auto simp: and_then_def split: prod.splits sum.splits)

lemma returns_eq: "returns x w = (r, w') \<longleftrightarrow> r = Inr x \<and> w' = w"
  by (auto simp: returns_def)

lemma atomic_Inr: "atomic body w = (Inr x, w') \<longleftrightarrow> body w = (Inr x, w')"
  by (auto simp: atomic_def split: prod.splits sum.splits)

lemma atomic_Inl: "atomic body w = (Inl err, w') \<Longrightarrow> rows w' = rows w"
  by (auto simp: atomic_def split: prod.splits sum.splits)

lemma atomic_email_calls: "email_calls (snd (atomic body w)) = email_calls (snd (body w))"
  by (auto simp: atomic_def split: prod.splits sum.splits)

lemma insert_row_Inr:
  "insert_row e r w = (Inr x, w') \<Longrightarrow> w' = w\<lparr>rows := rows w @ [r]\<rparr>"
  by (auto simp: insert_row_def split: if_splits)

lemma uuid4_frame:
  "uuid4 e w = (uid, w') \<Longrightarrow> rows w' = rows w \<and> email_calls w' = email_calls w"
  by (auto simp: uuid4_def draw_def split: prod.splits)

lemma nextval_frame:
  "nextval w = (i, w') \<Longrightarrow> rows w' = rows w \<and> email_calls w' = email_calls w"
  by (auto simp: nextval_def)

lemma User_objects_create_user_Inr:
  assumes "User_objects_create_user e uname mail pass w = (Inr u, w')"
  shows "rows w' = rows w @ [UserRow u]" and "email_calls w' = email_calls w"
    and "user_username u = nfkc e uname" and "user_email u = normalize_email mail"
    and "user_password u = pass"
  using assms
  by (auto simp: User_objects_create_user_def and_then_Inr returns_eq Let_def
      split: prod.splits dest!: insert_row_Inr uuid4_frame nextval_frame)

lemma ResetToken_save_Inr:
  assumes "ResetToken_save e u w = (Inr t, w')"
  shows "rows w' = rows w @ [TokenRow t]" and "email_calls w' = email_calls w"
    and "token_user_id t = user_id u"
  using assms
  by (auto simp: ResetToken_save_def and_then_Inr returns_eq Let_def
      split: prod.splits dest!: insert_row_Inr uuid4_frame nextval_frame)

lemma Customer_objects_create_Inr:
  assumes "Customer_objects_create e nm oid sname w = (Inr c, w')"
  shows "rows w' = rows w @ [CustomerRow c]" and "email_calls w' = email_calls w"
    and "customer_name c = nm" and "customer_owner_id c = oid" and "customer_schema_name c = sname"
  using assms
  by (auto simp: Customer_objects_create_def and_then_Inr returns_eq Let_def
      split: prod.splits dest!: insert_row_Inr uuid4_frame nextval_frame)

lemma UserPreference_objects_create_Inr:
  assumes "UserPreference_objects_create e kwargs w = (Inr p, w')"
  shows "rows w' = rows w @ [PrefRow p]" and "email_calls w' = email_calls w"
    and "pref_user_id p = dict_get kwargs ''user_id''"
    and "map_of kwargs ''name'' = Some v \<Longrightarrow> pref_name p = v"
  using assms
  by (auto simp: UserPreference_objects_create_def and_then_Inr returns_eq Let_def
      split: prod.splits option.splits dest!: insert_row_Inr uuid4_frame nextval_frame)

lemma User_objects_get_Inr:
  "User_objects_get uname w = (Inr u, w') \<Longrightarrow>
     w' = w \<and> filter (\<lambda>u. user_username u = uname) (users (rows w)) = [u]"
  by (auto simp: User_objects_get_def split: list.splits)

lemma new_user_login_email_Inr:
  "new_user_login_email e call w = (r, w') \<Longrightarrow>
     rows w' = rows w \<and> email_calls w' = email_calls w @ [call]"
  by (auto simp: new_user_login_email_def)


lemma users_append: "users (xs @ ys) = users xs @ users ys"
  by (induction xs rule: users.induct) auto

lemma UserPreferenceSerializer_create_Inr:
  assumes "UserPreferenceSerializer_create e cu vd w = (Inr p, w')"
  shows "rows w' = rows w @ [PrefRow p]" and "email_calls w' = email_calls w"
    and "\<exists>u. filter (\<lambda>x. user_username x = user_username cu) (users (rows w)) = [u]
             \<and> pref_user_id p = PInt (int (user_id u))"
    and "map_of vd ''name'' = Some v \<Longrightarrow> pref_name p = v"
    and "pref_preference p = dict_get vd ''preference''"
proof -
  from assms obtain u where g: "User_objects_get (user_username cu) w = (Inr u, w)"
    and c: "UserPreference_objects_create e
              (AList.update ''user_id'' (PInt (int (user_id u))) vd) w = (Inr p, w')"
    by (auto simp: UserPreferenceSerializer_create_def atomic_Inr and_then_Inr
        dest: User_objects_get_Inr)
  show "rows w' = rows w @ [PrefRow p]" "email_calls w' = email_calls w"
    using UserPreference_objects_create_Inr(1,2)[OF c] by auto
  have "pref_user_id p = PInt (int (user_id u))"
    using UserPreference_objects_create_Inr(3)[OF c]
    by (simp add: dict_get_def dict_get_default_def update_conv')
  then show "\<exists>u. filter (\<lambda>x. user_username x = user_username cu) (users (rows w)) = [u]
             \<and> pref_user_id p = PInt (int (user_id u))"
    using User_objects_get_Inr[OF g] by auto
  show "map_of vd ''name'' = Some v \<Longrightarrow> pref_name p = v"
    using UserPreference_objects_create_Inr(4)[OF c, of v] by (simp add: update_conv')
  show "pref_preference p = dict_get vd ''preference''"
    using c
    by (auto simp: UserPreference_objects_create_def and_then_Inr returns_eq Let_def
        dict_get_def dict_get_default_def update_conv' split: prod.splits option.splits)
qed

lemma filter_singleton_mem:
  assumes "filter P xs = [y]" and "x \<in> set xs" and "P x"
  shows "x = y"
proof -
  have "x \<in> set (filter P xs)" using assms(2,3) by simp
  then show ?thesis unfolding assms(1) by simp
qed

lemma to_internal_value_default_data:
  "to_internal_value (default_data e u pref) =
     [(''name'', PStr True (fst pref)),
      (''description'', PStr False (gettext e ''default preference'')),
      (''preference'', PDict [pref])]"
  by (simp add: to_internal_value_def default_data_def)

lemma UserPreferenceSerializer_is_valid_Inr:
  "UserPreferenceSerializer_is_valid e data w = (Inr vd, w') \<Longrightarrow>
     w' = w \<and> vd = to_internal_value data"
  by (auto simp: UserPreferenceSerializer_is_valid_def lift_result_def dest: validate_Inr)

lemma default_preferences_loop_Inr:
  "default_preferences_loop e u prefs w = (Inr x, w') \<Longrightarrow> u \<in> set (users (rows w)) \<Longrightarrow>
     \<exists>ps. rows w' = rows w @ map PrefRow ps
        \<and> map pref_name ps = map (\<lambda>p. PStr True (fst p)) prefs
        \<and> map pref_preference ps = map (\<lambda>p. PDict [p]) prefs
        \<and> map pref_user_id ps = map (\<lambda>p. PInt (int (user_id u))) prefs
        \<and> email_calls w' = email_calls w"
proof (induction prefs arbitrary: w)
  case Nil
  then show ?case by (simp add: returns_eq)
next
  case (Cons pref prefs)
  from Cons.prems(1) obtain p w1 where
    c: "UserPreferenceSerializer_create e u (to_internal_value (default_data e u pref)) w = (Inr p, w1)"
    and l: "default_preferences_loop e u prefs w1 = (Inr x, w')"
    by (auto simp: and_then_Inr dest!: UserPreferenceSerializer_is_valid_Inr)
  note f = UserPreferenceSerializer_create_Inr[OF c]
  have r1: "rows w1 = rows w @ [PrefRow p]" by (rule f(1))
  have uid: "pref_user_id p = PInt (int (user_id u))"
    using f(3) Cons.prems(2) by (auto dest: filter_singleton_mem)
  have nm: "pref_name p = PStr True (fst pref)"
    by (rule f(4)) (simp add: to_internal_value_default_data)
  have pp: "pref_preference p = PDict [pref]"
    using f(5) by (simp add: to_internal_value_default_data dict_get_def dict_get_default_def)
  have "u \<in> set (users (rows w1))" using Cons.prems(2) by (simp add: r1 users_append)
  from Cons.IH[OF l this] obtain ps where
    "rows w' = rows w1 @ map PrefRow ps"
    "map pref_name ps = map (\<lambda>p. PStr True (fst p)) prefs"
    "map pref_preference ps = map (\<lambda>p. PDict [p]) prefs"
    "map pref_user_id ps = map (\<lambda>p. PInt (int (user_id u))) prefs"
    "email_calls w' = email_calls w1" by blast
  then show ?case
    using r1 uid nm pp f(2)
    by (intro exI[of _ "p # ps"]) simp
qed


lemma secrets_choice_Inr:
  "secrets_choice e seq w = (Inr c, w') \<Longrightarrow>
     c \<in> set seq \<and> rows w' = rows w \<and> email_calls w' = email_calls w"
  by (auto simp: secrets_choice_def draw_def split: if_splits)

lemma secrets_choice_total:
  "seq \<noteq> [] \<Longrightarrow> \<exists>c w'. secrets_choice e seq w = (Inr c, w')"
  by (simp add: secrets_choice_def draw_def)

lemma join_choices_Inr:
  "join_choices e seq n w = (Inr p, w') \<Longrightarrow>
     length p = n \<and> set p \<subseteq> set seq \<and> rows w' = rows w \<and> email_calls w' = email_calls w"
proof (induction n arbitrary: w p)
  case 0
  then show ?case by (simp add: returns_eq)
next
  case (Suc n)
  from Suc.prems obtain c w1 cs where
    c: "secrets_choice e seq w = (Inr c, w1)"
    and j: "join_choices e seq n w1 = (Inr cs, w')" and p: "p = c # cs"
    by (auto simp: and_then_Inr returns_eq)
  from Suc.IH[OF j] secrets_choice_Inr[OF c] p show ?case by simp
qed

lemma join_choices_total:
  "seq \<noteq> [] \<Longrightarrow> \<exists>p w'. join_choices e seq n w = (Inr p, w')"
proof (induction n arbitrary: w)
  case 0
  then show ?case by (simp add: returns_eq)
next
  case (Suc n)
  from secrets_choice_total[OF Suc.prems] obtain c w1 where
    c: "secrets_choice e seq w = (Inr c, w1)" by blast
  from Suc.IH[OF Suc.prems] obtain cs w' where
    j: "join_choices e seq n w1 = (Inr cs, w')" by blast
  show ?case using c j by (simp add: and_then_Inr returns_eq)
qed

lemma choices_eq:
  "choices = ''!@#$%^&*()_+0123456789ABCDEFGHIJKLMNOPQRSTUVWXYZabcdefghijklmnopqrstuvwxyz''"
  by (simp add: choices_def string_digits_def string_ascii_uppercase_def
      string_ascii_lowercase_def)

lemma priv_gen_temp_password_Inr:
  "priv_gen_temp_password e w = (Inr p, w') \<Longrightarrow>
     length p = 10 \<and> set p \<subseteq> set choices \<and> rows w' = rows w \<and> email_calls w' = email_calls w"
  unfolding priv_gen_temp_password_def by (rule join_choices_Inr)

lemma priv_gen_temp_password_total:
  "\<exists>p w'. priv_gen_temp_password e w = (Inr p, w')"
  unfolding priv_gen_temp_password_def
  by (rule join_choices_total) (simp add: choices_eq)

lemma priv_create_user_Inr:
  assumes "priv_create_user e uname mail password w = (Inr u, w')"
  shows "\<exists>ps t. rows w' = rows w @ [UserRow u] @ map PrefRow ps @ [TokenRow t]
           \<and> map pref_name ps = map (\<lambda>p. PStr True (fst p)) (defaults e)
           \<and> map pref_preference ps = map (\<lambda>p. PDict [p]) (defaults e)
           \<and> map pref_user_id ps = map (\<lambda>p. PInt (int (user_id u))) (defaults e)
           \<and> token_user_id t = user_id u
           \<and> email_calls w' = email_calls w @
                [(uname, mail, str_uuid (user_uuid u), str_uuid (token t))]"
    and "user_username u = nfkc e uname" and "user_email u = normalize_email mail"
    and "password = Some p \<Longrightarrow> p \<noteq> [] \<Longrightarrow> user_password u = p"
    and "password = None \<or> password = Some [] \<Longrightarrow>
           length (user_password u) = 10 \<and> set (user_password u) \<subseteq> set choices"
proof -
  from assms obtain pass w1 w2 w3 t w4 x where
    pw: "(case password of
            Some p \<Rightarrow> if p \<noteq> [] then returns p else priv_gen_temp_password e
          | None \<Rightarrow> priv_gen_temp_password e) w = (Inr pass, w1)"
    and cu: "User_objects_create_user e uname mail pass w1 = (Inr u, w2)"
    and dp: "priv_create_default_preferences e u w2 = (Inr (), w3)"
    and rt: "ResetToken_save e u w3 = (Inr t, w4)"
    and em: "new_user_login_email e
               (uname, mail, str_uuid (user_uuid u), str_uuid (token t)) w4 = (Inr x, w')"
    unfolding priv_create_user_def by (auto simp: and_then_Inr returns_eq)
  have f1: "rows w1 = rows w \<and> email_calls w1 = email_calls w"
    using pw by (auto simp: returns_eq split: option.splits if_splits
        dest: priv_gen_temp_password_Inr)
  note f2 = User_objects_create_user_Inr[OF cu]
  have "u \<in> set (users (rows w2))" by (simp add: f2(1) users_append)
  from default_preferences_loop_Inr[OF dp[unfolded priv_create_default_preferences_def] this]
  obtain ps where f3: "rows w3 = rows w2 @ map PrefRow ps"
    "map pref_name ps = map (\<lambda>p. PStr True (fst p)) (defaults e)"
    "map pref_preference ps = map (\<lambda>p. PDict [p]) (defaults e)"
    "map pref_user_id ps = map (\<lambda>p. PInt (int (user_id u))) (defaults e)"
    "email_calls w3 = email_calls w2" by blast
  note f4 = ResetToken_save_Inr[OF rt]
  note f5 = new_user_login_email_Inr[OF em]
  show "\<exists>ps t. rows w' = rows w @ [UserRow u] @ map PrefRow ps @ [TokenRow t]
           \<and> map pref_name ps = map (\<lambda>p. PStr True (fst p)) (defaults e)
           \<and> map pref_preference ps = map (\<lambda>p. PDict [p]) (defaults e)
           \<and> map pref_user_id ps = map (\<lambda>p. PInt (int (user_id u))) (defaults e)
           \<and> token_user_id t = user_id u
           \<and> email_calls w' = email_calls w @
                [(uname, mail, str_uuid (user_uuid u), str_uuid (token t))]"
    using f1 f2(1,2) f3 f4 f5 by (intro exI[of _ ps] exI[of _ t]) simp
  show "user_username u = nfkc e uname" "user_email u = normalize_email mail"
    by (rule f2(3), rule f2(4))
  show "password = Some p \<Longrightarrow> p \<noteq> [] \<Longrightarrow> user_password u = p"
    using pw f2(5) by (auto simp: returns_eq)
  show "password = None \<or> password = Some [] \<Longrightarrow>
           length (user_password u) = 10 \<and> set (user_password u) \<subseteq> set choices"
  proof -
    assume "password = None \<or> password = Some []"
    then have "priv_gen_temp_password e w = (Inr pass, w1)" using pw by auto
    from priv_gen_temp_password_Inr[OF this] show ?thesis using f2(5) by simp
  qed
qed

section \<open>The example environment at work\<close>

lemma example_normalize_email:
  "normalize_email ''a@x.org'' = ''a@x.org''"
  "normalize_email ''b@x.org'' = ''b@x.org''"
  "normalize_email ''a@X.org'' = ''a@x.org''"
  by code_simp+

lemmas run_defs = example_normalize_email priv_create_user_def and_then_def returns_def lift_result_def atomic_def
  User_objects_create_user_def uuid4_def draw_def nextval_def insert_row_def
  priv_create_default_preferences_def defaults_def default_data_def
  UserPreferenceSerializer_is_valid_def UserPreferenceSerializer_create_def
  validate_defs to_internal_value_def User_objects_get_def UserPreference_objects_create_def
  ResetToken_save_def new_user_login_email_def model_to_dict_def
  priv_currency_symbols_def py_strip_def py_isspace_def Let_def
  Customer_objects_create_def customer_user_set_add_def customer_save_def
  CustomerSerializer_create_body_def CustomerSerializer_create_def

lemma example_create_user:
  "priv_create_user example_env ''alice'' ''a@x.org'' (Some ''pw'') empty_world =
   (Inr \<lparr>user_id = 1, user_uuid = UUID 3, user_username = ''alice'',
          user_email = ''a@x.org'', user_password = ''pw''\<rparr>,
    \<lparr>rows =
      [UserRow \<lparr>user_id = 1, user_uuid = UUID 3, user_username = ''alice'',
                user_email = ''a@x.org'', user_password = ''pw''\<rparr>,
       PrefRow \<lparr>pref_id = 2, pref_uuid = UUID 10, pref_name = PStr True ''currency'',
                pref_description = PStr False ''default preference'',
                pref_preference = PDict [(''currency'', PStr False ''USD'')],
                pref_user_id = PInt 1\<rparr>,
       PrefRow \<lparr>pref_id = 3, pref_uuid = UUID 17, pref_name = PStr True ''timezone'',
                pref_description = PStr False ''default preference'',
                pref_preference = PDict [(''timezone'', PStr False ''UTC'')],
                pref_user_id = PInt 1\<rparr>,
       PrefRow \<lparr>pref_id = 4, pref_uuid = UUID 24, pref_name = PStr True ''locale'',
                pref_description = PStr False ''default preference'',
                pref_preference = PDict [(''locale'', PStr False ''en_US.ISO8859-1'')],
                pref_user_id = PInt 1\<rparr>,
       TokenRow \<lparr>token_id = 5, token = UUID 31, token_user_id = 1\<rparr>],
     next_id = 6, drawn = 5,
     email_calls = [(''alice'', ''a@x.org'', str_uuid (UUID 3), str_uuid (UUID 31))]\<rparr>)"
  by (simp add: run_defs example_env_def empty_world_def)

lemma example_schema_name: "priv_create_schema_name ''Big_Co.'' = ''bigco''"
  by code_simp

lemma example_create_customer:
  "CustomerSerializer_create example_env example_customer empty_world =
   (Inr \<lparr>customer_id = 6, customer_uuid = UUID 38, customer_name = ''Big_Co.'',
          customer_owner_id = 1, customer_schema_name = ''bigco''\<rparr>,
    \<lparr>rows =
      [UserRow \<lparr>user_id = 1, user_uuid = UUID 3, user_username = ''alice'',
                user_email = ''a@x.org'', user_password = ''pw''\<rparr>,
       PrefRow \<lparr>pref_id = 2, pref_uuid = UUID 10, pref_name = PStr True ''currency'',
                pref_description = PStr False ''default preference'',
                pref_preference = PDict [(''currency'', PStr False ''USD'')],
                pref_user_id = PInt 1\<rparr>,
       PrefRow \<lparr>pref_id = 3, pref_uuid = UUID 17, pref_name = PStr True ''timezone'',
                pref_description = PStr False ''default preference'',
                pref_preference = PDict [(''timezone'', PStr False ''UTC'')],
                pref_user_id = PInt 1\<rparr>,
       PrefRow \<lparr>pref_id = 4, pref_uuid = UUID 24, pref_name = PStr True ''locale'',
                pref_description = PStr False ''default preference'',
                pref_preference = PDict [(''locale'', PStr False ''en_US.ISO8859-1'')],
                pref_user_id = PInt 1\<rparr>,
       TokenRow \<lparr>token_id = 5, token = UUID 31, token_user_id = 1\<rparr>,
       CustomerRow \<lparr>customer_id = 6, customer_uuid = UUID 38, customer_name = ''Big_Co.'',
          customer_owner_id = 1, customer_schema_name = ''bigco''\<rparr>,
       MemberRow 6 1],
     next_id = 7, drawn = 6,
     email_calls = [(''alice'', ''a@x.org'', str_uuid (UUID 3), str_uuid (UUID 31))]\<rparr>)"
  by (simp add: run_defs example_env_def empty_world_def example_customer_def example_owner_def
      example_schema_name)


lemma example_create_user_generated:
  "priv_create_user constant_env ''bob'' ''b@x.org'' None empty_world =
   (Inr \<lparr>user_id = 1, user_uuid = UUID 0, user_username = ''bob'',
          user_email = ''b@x.org'', user_password = ''!!!!!!!!!!''\<rparr>,
    \<lparr>rows =
      [UserRow \<lparr>user_id = 1, user_uuid = UUID 0, user_username = ''bob'',
                user_email = ''b@x.org'', user_password = ''!!!!!!!!!!''\<rparr>,
       PrefRow \<lparr>pref_id = 2, pref_uuid = UUID 0, pref_name = PStr True ''currency'',
                pref_description = PStr False ''default preference'',
                pref_preference = PDict [(''currency'', PStr False ''USD'')],
                pref_user_id = PInt 1\<rparr>,
       PrefRow \<lparr>pref_id = 3, pref_uuid = UUID 0, pref_name = PStr True ''timezone'',
                pref_description = PStr False ''default preference'',
                pref_preference = PDict [(''timezone'', PStr False ''UTC'')],
                pref_user_id = PInt 1\<rparr>,
       PrefRow \<lparr>pref_id = 4, pref_uuid = UUID 0, pref_name = PStr True ''locale'',
                pref_description = PStr False ''default preference'',
                pref_preference = PDict [(''locale'', PStr False ''en_US.ISO8859-1'')],
                pref_user_id = PInt 1\<rparr>,
       TokenRow \<lparr>token_id = 5, token = UUID 0, token_user_id = 1\<rparr>],
     next_id = 6, drawn = 15,
     email_calls = [(''bob'', ''b@x.org'', str_uuid (UUID 0), str_uuid (UUID 0))]\<rparr>)"
proof -
  have ten: "(10::nat) = Suc (Suc (Suc (Suc (Suc (Suc (Suc (Suc (Suc (Suc 0)))))))))"
    by simp
  have gen: "priv_gen_temp_password e w = (Inr ''!!!!!!!!!!'', w\<lparr>drawn := drawn w + 10\<rparr>)"
    if "entropy e = (\<lambda>n. 0)" for e w
    unfolding priv_gen_temp_password_def ten
    by (simp add: that secrets_choice_def draw_def and_then_def returns_def choices_eq)
  show ?thesis
    by (simp add: gen run_defs constant_env_def example_env_def empty_world_def)
qed

lemma example_create_customer_rejected:
  "CustomerSerializer_create rejecting_env example_customer empty_world =
   (Inl IntegrityError,
    \<lparr>rows = [], next_id = 7, drawn = 6,
     email_calls = [(''alice'', ''a@x.org'', str_uuid (UUID 3), str_uuid (UUID 31))]\<rparr>)"
  by (simp add: run_defs rejecting_env_def example_env_def empty_world_def example_customer_def
      example_owner_def)

lemma example_create_customer_body_rejected:
  "rows (snd (CustomerSerializer_create_body rejecting_env example_customer empty_world)) \<noteq> []"
  by (simp add: run_defs rejecting_env_def example_env_def empty_world_def example_customer_def
      example_owner_def)


section \<open>Creating a customer: what a successful run leaves behind\<close>

lemma users_map_PrefRow: "users (map PrefRow ps) = []"
  by (induction ps) auto

lemma users_map_save_over: "users (map (save_over c) rs) = users rs"
proof (induction rs)
  case Nil
  then show ?case by simp
next
  case (Cons r rs)
  then show ?case by (cases r) auto
qed

lemma customer_user_set_add_Inr:
  assumes "customer_user_set_add e c u w = (Inr x, w')"
  shows "MemberRow (customer_id c) (user_id u) \<in> set (rows w')"
    and "set (rows w) \<subseteq> set (rows w')" and "users (rows w') = users (rows w)"
    and "email_calls w' = email_calls w"
  using assms
  by (auto simp: customer_user_set_add_def users_append split: if_splits dest!: insert_row_Inr)

lemma customer_save_eq:
  "customer_save c w = (r, w') \<Longrightarrow>
     rows w' = map (save_over c) (rows w) \<and> email_calls w' = email_calls w"
  by (auto simp: customer_save_def)

lemma save_over_keeps: "r \<in> set rs \<Longrightarrow> save_over c r = r \<Longrightarrow> r \<in> set (map (save_over c) rs)"
  by force

lemma CustomerSerializer_create_body_Inr:
  assumes "CustomerSerializer_create_body e vd w = (Inr c, w')"
  shows "\<exists>owner. UserRow owner \<in> set (rows w') \<and> CustomerRow c \<in> set (rows w')
           \<and> MemberRow (customer_id c) (user_id owner) \<in> set (rows w')
           \<and> customer_owner_id c = user_id owner
           \<and> user_username owner = nfkc e (ud_username (cd_owner vd))
           \<and> user_email owner = normalize_email (ud_email (cd_owner vd))
           \<and> users (rows w') = users (rows w) @ [owner]"
    and "customer_name c = cd_name vd"
    and "customer_schema_name c = priv_create_schema_name (cd_name vd)"
proof -
  from assms obtain owner w1 w2 w3 x y where
    cu: "priv_create_user e (ud_username (cd_owner vd)) (ud_email (cd_owner vd))
           (ud_password (cd_owner vd)) w = (Inr owner, w1)"
    and cc: "Customer_objects_create e (cd_name vd) (user_id owner)
               (priv_create_schema_name (cd_name vd)) w1 = (Inr c, w2)"
    and ad: "customer_user_set_add e c owner w2 = (Inr x, w3)"
    and sv: "customer_save c w3 = (Inr y, w')"
    unfolding CustomerSerializer_create_body_def Let_def
    by (auto simp: and_then_Inr returns_eq)
  from priv_create_user_Inr(1)[OF cu] obtain ps t where
    r1: "rows w1 = rows w @ [UserRow owner] @ map PrefRow ps @ [TokenRow t]" by blast
  note f2 = Customer_objects_create_Inr[OF cc]
  note f3 = customer_user_set_add_Inr[OF ad]
  note f4 = customer_save_eq[OF sv]
  have u3: "UserRow owner \<in> set (rows w3)" and c3: "CustomerRow c \<in> set (rows w3)"
    using f3(2) f2(1) r1 by auto
  have "UserRow owner \<in> set (rows w')" using save_over_keeps[OF u3, of c] f4 by simp
  moreover have "CustomerRow c \<in> set (rows w')" using save_over_keeps[OF c3, of c] f4 by simp
  moreover have "MemberRow (customer_id c) (user_id owner) \<in> set (rows w')"
    using save_over_keeps[OF f3(1), of c] f4 by simp
  moreover have "users (rows w') = users (rows w) @ [owner]"
    using f4 f3(3) f2(1) r1 by (simp add: users_map_save_over users_append users_map_PrefRow)
  ultimately show "\<exists>owner. UserRow owner \<in> set (rows w') \<and> CustomerRow c \<in> set (rows w')
           \<and> MemberRow (customer_id c) (user_id owner) \<in> set (rows w')
           \<and> customer_owner_id c = user_id owner
           \<and> user_username owner = nfkc e (ud_username (cd_owner vd))
           \<and> user_email owner = normalize_email (ud_email (cd_owner vd))
           \<and> users (rows w') = users (rows w) @ [owner]"
    using f2(4) priv_create_user_Inr(2,3)[OF cu] by (intro exI[of _ owner]) simp
  show "customer_name c = cd_name vd" by (rule f2(3))
  show "customer_schema_name c = priv_create_schema_name (cd_name vd)" by (rule f2(5))
qed

text \<open>
  C1 (as amended).  For every customer created through \<^verbatim>\<open>CustomerSerializer.create\<close>,
  the stored schema name is the customer's name with every non-word character and every
  underscore stripped, lowercased: a function of the name alone.
\<close>

theorem create_stores_derived_schema_name:
  "CustomerSerializer_create e validated_data w = (Inr c, w') \<Longrightarrow>
     CustomerRow c \<in> set (rows w')
     \<and> customer_schema_name c =
         py_lower (filter (\<lambda>ch. \<not> re_nonword ch \<and> ch \<noteq> CHR ''_'') (cd_name validated_data))"
proof -
  assume "CustomerSerializer_create e validated_data w = (Inr c, w')"
  then have b: "CustomerSerializer_create_body e validated_data w = (Inr c, w')"
    by (simp add: CustomerSerializer_create_def atomic_Inr)
  from CustomerSerializer_create_body_Inr(1)[OF b]
  have "CustomerRow c \<in> set (rows w')" by blast
  moreover from CustomerSerializer_create_body_Inr(3)[OF b]
  have "customer_schema_name c =
         py_lower (filter (\<lambda>ch. \<not> re_nonword ch \<and> ch \<noteq> CHR ''_'') (cd_name validated_data))"
    by (simp add: priv_create_schema_name_def re_sub_class_plus_empty)
  ultimately show ?thesis by simp
qed

theorem create_stores_derived_schema_name_witness:
  "\<exists>c w'. CustomerSerializer_create example_env example_customer empty_world = (Inr c, w')
      \<and> CustomerRow c \<in> set (rows w')
      \<and> customer_schema_name c =
         py_lower (filter (\<lambda>ch. \<not> re_nonword ch \<and> ch \<noteq> CHR ''_'') (cd_name example_customer))"
  using create_stores_derived_schema_name[OF example_create_customer] example_create_customer
  by blast

text \<open>
  C1 as it is stated fails: the name \<^verbatim>\<open>Big_Co.\<close> is stored with the schema name
  \<^verbatim>\<open>bigco\<close>, while stripping the non-word characters alone and lowercasing gives
  \<^verbatim>\<open>big_co\<close>; the underscore is a word character.
\<close>

theorem schema_name_strips_underscore:
  "map_sum id customer_schema_name
     (fst (CustomerSerializer_create example_env
             \<lparr>cd_name = ''Big_Co.'',
              cd_owner = \<lparr>ud_username = ''alice'', ud_email = ''a@x.org'',
                          ud_password = Some ''pw''\<rparr>\<rparr> empty_world))
   = Inr ''bigco''
   \<and> spec_schema_name ''Big_Co.'' = ''big_co''"
proof -
  have "spec_schema_name ''Big_Co.'' = ''big_co''" by code_simp
  then show ?thesis
    using example_create_customer by (simp add: example_customer_def example_owner_def)
qed

section \<open>Creating users and customers: the claims\<close>


text \<open>
  C3.  \<^verbatim>\<open>CustomerSerializer.create\<close> creates the owner user, the customer row with
  its derived schema name, and the owner's membership in the customer's user set, and does
  so atomically: when any step fails, the rows of the database are those before the call.
\<close>

theorem customer_create_is_atomic:
  "(case CustomerSerializer_create e validated_data w of
      (Inl err, w') \<Rightarrow> rows w' = rows w
    | (Inr c, w') \<Rightarrow>
        (\<exists>owner. UserRow owner \<in> set (rows w') \<and> CustomerRow c \<in> set (rows w')
           \<and> MemberRow (customer_id c) (user_id owner) \<in> set (rows w')
           \<and> customer_owner_id c = user_id owner
           \<and> user_username owner = nfkc e (ud_username (cd_owner validated_data))
           \<and> user_email owner = normalize_email (ud_email (cd_owner validated_data))
           \<and> customer_name c = cd_name validated_data
           \<and> customer_schema_name c = priv_create_schema_name (cd_name validated_data)))"
proof (cases "CustomerSerializer_create e validated_data w")
  case (Pair r w')
  show ?thesis
  proof (cases r)
    case (Inl err)
    with Pair atomic_Inl[of "CustomerSerializer_create_body e validated_data" w err w']
    show ?thesis by (simp add: CustomerSerializer_create_def)
  next
    case (Inr c)
    with Pair have b: "CustomerSerializer_create_body e validated_data w = (Inr c, w')"
      by (simp add: CustomerSerializer_create_def atomic_Inr)
    from CustomerSerializer_create_body_Inr[OF b] Pair Inr show ?thesis by auto
  qed
qed

theorem customer_create_is_atomic_witness:
  "fst (CustomerSerializer_create rejecting_env example_customer empty_world) = Inl IntegrityError
   \<and> rows (snd (CustomerSerializer_create rejecting_env example_customer empty_world)) = []
   \<and> rows (snd (CustomerSerializer_create_body rejecting_env example_customer empty_world)) \<noteq> []
   \<and> (\<exists>c w' owner. CustomerSerializer_create example_env example_customer empty_world = (Inr c, w')
         \<and> UserRow owner \<in> set (rows w') \<and> CustomerRow c \<in> set (rows w')
         \<and> MemberRow (customer_id c) (user_id owner) \<in> set (rows w'))"
proof -
  have "rows (snd (CustomerSerializer_create rejecting_env example_customer empty_world))
          = rows empty_world"
    using customer_create_is_atomic[where e=rejecting_env and validated_data=example_customer and w=empty_world]
    by (simp add: example_create_customer_rejected)
  moreover have "\<exists>c w' owner.
      CustomerSerializer_create example_env example_customer empty_world = (Inr c, w')
         \<and> UserRow owner \<in> set (rows w') \<and> CustomerRow c \<in> set (rows w')
         \<and> MemberRow (customer_id c) (user_id owner) \<in> set (rows w')"
    using customer_create_is_atomic[where e=example_env and validated_data=example_customer and w=empty_world]
    unfolding example_create_customer by auto
  ultimately show ?thesis
    using example_create_customer_body_rejected
    by (simp add: example_create_customer_rejected)
qed



lemma map_eq_three:
  "map f ps = [a, b, c] \<Longrightarrow> \<exists>p1 p2 p3. ps = [p1, p2, p3]"
  by (auto simp: map_eq_Cons_conv)

text \<open>
  C4.  Every successful \<^verbatim>\<open>_create_user\<close> adds to the database exactly these rows, in
  this order: one user; the default preferences \<^verbatim>\<open>currency\<close>, \<^verbatim>\<open>timezone\<close> and
  \<^verbatim>\<open>locale\<close> of that user, holding the defaults of the settings; one reset token tied to
  that user.
\<close>

theorem create_user_rows_in_order:
  "priv_create_user e uname mail password w = (Inr u, w') \<Longrightarrow>
     \<exists>p1 p2 p3 t.
        rows w' = rows w @ [UserRow u, PrefRow p1, PrefRow p2, PrefRow p3, TokenRow t]
      \<and> token_user_id t = user_id u
      \<and> pref_name p1 = PStr True ''currency'' \<and> pref_user_id p1 = PInt (int (user_id u))
      \<and> pref_preference p1 = PDict [(''currency'', KOKU_DEFAULT_CURRENCY e)]
      \<and> pref_name p2 = PStr True ''timezone'' \<and> pref_user_id p2 = PInt (int (user_id u))
      \<and> pref_preference p2 = PDict [(''timezone'', KOKU_DEFAULT_TIMEZONE e)]
      \<and> pref_name p3 = PStr True ''locale'' \<and> pref_user_id p3 = PInt (int (user_id u))
      \<and> pref_preference p3 = PDict [(''locale'', KOKU_DEFAULT_LOCALE e)]"
proof -
  assume a: "priv_create_user e uname mail password w = (Inr u, w')"
  from priv_create_user_Inr(1)[OF a] obtain ps t where
    r: "rows w' = rows w @ [UserRow u] @ map PrefRow ps @ [TokenRow t]"
    and n: "map pref_name ps = map (\<lambda>p. PStr True (fst p)) (defaults e)"
    and p: "map pref_preference ps = map (\<lambda>p. PDict [p]) (defaults e)"
    and i: "map pref_user_id ps = map (\<lambda>p. PInt (int (user_id u))) (defaults e)"
    and t: "token_user_id t = user_id u" by blast
  from n obtain p1 p2 p3 where ps: "ps = [p1, p2, p3]"
    unfolding defaults_def by (auto dest: map_eq_three)
  show ?thesis
    using r n p i t unfolding ps defaults_def
    by (intro exI[of _ p1] exI[of _ p2] exI[of _ p3] exI[of _ t]) simp
qed

theorem create_user_rows_in_order_witness:
  "\<exists>u w'.
      priv_create_user example_env ''alice'' ''a@x.org'' (Some ''pw'') empty_world = (Inr u, w')
    \<and> (\<exists>p1 p2 p3 t.
        rows w' = rows empty_world @ [UserRow u, PrefRow p1, PrefRow p2, PrefRow p3, TokenRow t]
      \<and> token_user_id t = user_id u
      \<and> pref_name p1 = PStr True ''currency'' \<and> pref_user_id p1 = PInt (int (user_id u))
      \<and> pref_preference p1 = PDict [(''currency'', KOKU_DEFAULT_CURRENCY example_env)]
      \<and> pref_name p2 = PStr True ''timezone'' \<and> pref_user_id p2 = PInt (int (user_id u))
      \<and> pref_preference p2 = PDict [(''timezone'', KOKU_DEFAULT_TIMEZONE example_env)]
      \<and> pref_name p3 = PStr True ''locale'' \<and> pref_user_id p3 = PInt (int (user_id u))
      \<and> pref_preference p3 = PDict [(''locale'', KOKU_DEFAULT_LOCALE example_env)])"
  by (rule exI, rule exI, rule conjI, rule example_create_user,
      rule create_user_rows_in_order[OF example_create_user])



text \<open>
  C5.  Every successful \<^verbatim>\<open>_create_user\<close> calls \<^verbatim>\<open>new_user_login_email\<close> exactly
  once, with the username and the email the user was created with, the uuid of the
  created user as a string and the value of the newly created reset token as a string, in
  that order.  The user row holds the normal forms of that username and that email.
\<close>

theorem create_user_sends_one_email:
  "priv_create_user e uname mail password w = (Inr u, w') \<Longrightarrow>
     \<exists>t. rows w' \<noteq> [] \<and> last (rows w') = TokenRow t \<and> token_user_id t = user_id u
        \<and> user_username u = nfkc e uname \<and> user_email u = normalize_email mail
        \<and> email_calls w' =
            email_calls w @ [(uname, mail, str_uuid (user_uuid u), str_uuid (token t))]"
proof -
  assume a: "priv_create_user e uname mail password w = (Inr u, w')"
  from priv_create_user_Inr(1)[OF a] obtain ps t where
    "rows w' = rows w @ [UserRow u] @ map PrefRow ps @ [TokenRow t]"
    "token_user_id t = user_id u"
    "email_calls w' = email_calls w @ [(uname, mail, str_uuid (user_uuid u), str_uuid (token t))]"
    by blast
  then show ?thesis
    using priv_create_user_Inr(2,3)[OF a] by (intro exI[of _ t]) simp
qed

theorem create_user_sends_one_email_witness:
  "\<exists>u w'.
      priv_create_user example_env ''alice'' ''a@x.org'' (Some ''pw'') empty_world = (Inr u, w')
    \<and> (\<exists>t. rows w' \<noteq> [] \<and> last (rows w') = TokenRow t \<and> token_user_id t = user_id u
        \<and> user_username u = nfkc example_env ''alice''
        \<and> user_email u = normalize_email ''a@x.org''
        \<and> email_calls w' =
            email_calls empty_world @
              [(''alice'', ''a@x.org'', str_uuid (user_uuid u), str_uuid (token t))])"
  by (rule exI, rule exI, rule conjI, rule example_create_user,
      rule create_user_sends_one_email[OF example_create_user])



text \<open>
  C8.  When \<^verbatim>\<open>_create_user\<close> is called with an absent or empty password, the user is
  created with a generated password of exactly 10 characters, each one of
  \<^verbatim>\<open>!@#$%^&*()_+\<close>, an ASCII digit or an ASCII letter, and generating it never fails;
  when a non-empty password is supplied, the user is created with that password.
\<close>

theorem create_user_password:
  "priv_create_user e uname mail password w = (Inr u, w') \<Longrightarrow>
     UserRow u \<in> set (rows w')
     \<and> (\<exists>p w1. priv_gen_temp_password e w = (Inr p, w1))
     \<and> (if password = None \<or> password = Some []
         then length (user_password u) = 10
              \<and> set (user_password u) \<subseteq>
                  set ''!@#$%^&*()_+0123456789ABCDEFGHIJKLMNOPQRSTUVWXYZabcdefghijklmnopqrstuvwxyz''
         else password = Some (user_password u))"
proof -
  assume a: "priv_create_user e uname mail password w = (Inr u, w')"
  from priv_create_user_Inr(1)[OF a] have "UserRow u \<in> set (rows w')" by auto
  moreover have "\<exists>p w1. priv_gen_temp_password e w = (Inr p, w1)"
    by (rule priv_gen_temp_password_total)
  moreover have "length (user_password u) = 10 \<and> set (user_password u) \<subseteq>
        set ''!@#$%^&*()_+0123456789ABCDEFGHIJKLMNOPQRSTUVWXYZabcdefghijklmnopqrstuvwxyz''"
    if "password = None \<or> password = Some []"
    using priv_create_user_Inr(5)[OF a that] unfolding choices_eq .
  moreover have "password = Some (user_password u)"
    if "\<not> (password = None \<or> password = Some [])"
  proof -
    from that obtain p where p: "password = Some p" "p \<noteq> []" by (cases password) auto
    from priv_create_user_Inr(4)[OF a p] p show ?thesis by simp
  qed
  ultimately show ?thesis by (simp only: if_split) blast
qed

theorem create_user_password_witness:
  "(\<exists>u w'. priv_create_user constant_env ''bob'' ''b@x.org'' None empty_world = (Inr u, w')
       \<and> user_password u = ''!!!!!!!!!!'' \<and> length (user_password u) = 10)
   \<and> (\<exists>u w'. priv_create_user example_env ''alice'' ''a@x.org'' (Some ''pw'') empty_world = (Inr u, w')
       \<and> user_password u = ''pw'')"
  using create_user_password[OF example_create_user_generated]
    create_user_password[OF example_create_user]
  by (simp add: example_create_user_generated example_create_user)

section \<open>Emails of the users created through the serializers\<close>

text \<open>
  \<^verbatim>\<open>NestedUserSerializer\<close> validates an email as \<^verbatim>\<open>UserSerializer\<close> does on a
  database without users: it makes no uniqueness check.
\<close>

lemma NestedUserSerializer_email_no_uniqueness:
  "NestedUserSerializer_email e raw = UserSerializer_email e [] raw"
  by (simp add: NestedUserSerializer_email_def UserSerializer_email_def Let_def
      split: option.splits)

lemma UserSerializer_email_Inr:
  "UserSerializer_email e rs raw = Inr v \<Longrightarrow>
     validate_email e v \<and> v \<notin> set (map user_email (users rs))"
  by (auto simp: UserSerializer_email_def Let_def split: option.splits if_splits)

lemma UserSerializer_email_rejects:
  "\<not> validate_email e (py_strip s) \<or> py_strip s \<in> set (map user_email (users rs)) \<Longrightarrow>
     \<exists>m. UserSerializer_email e rs (Some s) = Inl (ValidationError m)"
  by (auto simp: UserSerializer_email_def Let_def)

lemma UserSerializer_is_valid_rejects:
  "in_email inp = Some s \<Longrightarrow>
   \<not> validate_email e (py_strip s) \<or> py_strip s \<in> set (map user_email (users rs)) \<Longrightarrow>
     \<exists>m. UserSerializer_is_valid e rs inp = Inl (ValidationError m)"
  using UserSerializer_email_rejects[of e s rs]
  by (auto simp: UserSerializer_is_valid_def)

text \<open>
  What the validators do achieve: an email that \<^verbatim>\<open>validate_email\<close> refuses, and an
  email whose text is the stored email of a user, is rejected with a validation error by
  both serializers, and the world is left as it was.
\<close>

lemma serializers_reject_invalid_and_stored_emails:
  assumes "in_email inp = Some s"
    and "\<not> validate_email e (py_strip s) \<or> py_strip s \<in> set (map user_email (users (rows w)))"
  shows "\<exists>m. UserSerializer_save e inp w = (Inl (ValidationError m), w)"
    and "\<exists>m. CustomerSerializer_save e \<lparr>in_name = nm, in_owner = inp\<rparr> w
                = (Inl (ValidationError m), w)"
proof -
  from UserSerializer_is_valid_rejects[OF assms] obtain m where
    m: "UserSerializer_is_valid e (rows w) inp = Inl (ValidationError m)" by blast
  show "\<exists>m. UserSerializer_save e inp w = (Inl (ValidationError m), w)"
    using m by (simp add: UserSerializer_save_def)
  show "\<exists>m. CustomerSerializer_save e \<lparr>in_name = nm, in_owner = inp\<rparr> w
                = (Inl (ValidationError m), w)"
    using m by (simp add: CustomerSerializer_save_def CustomerSerializer_is_valid_def)
qed

lemmas save_defs = UserSerializer_save_def UserSerializer_is_valid_def UserSerializer_email_def
  UserSerializer_create_def

text \<open>
  C6.  Creation through the serializers is claimed to reject every email that already
  belongs to a user, so that the emails of the users are pairwise distinct.  Two
  requests with the email \<^verbatim>\<open>a@X.org\<close> are both accepted: the uniqueness validator
  compares the text of the request with the stored emails, \<^verbatim>\<open>create_user\<close> then
  stores the email with its domain lowercased, and so the second request finds no user
  with the email \<^verbatim>\<open>a@X.org\<close>.  Two users with the email \<^verbatim>\<open>a@x.org\<close> are stored.
\<close>

theorem two_users_with_one_email:
  "map user_email
     (users (rows (serve_all example_env
        [CreateUser \<lparr>in_username = ''alice'', in_email = Some ''a@X.org'',
                     in_password = Some ''pw''\<rparr>,
         CreateUser \<lparr>in_username = ''bob'', in_email = Some ''a@X.org'',
                     in_password = Some ''pw''\<rparr>] empty_world)))
   = [''a@x.org'', ''a@x.org'']"
  by (simp add: save_defs run_defs example_env_def empty_world_def)

section \<open>The migration: its operations and their effect\<close>

text \<open>
  C7.  The migration \<^verbatim>\<open>0010_auto_20180523_1540\<close> has exactly three operations on the
  model \<^verbatim>\<open>userpreference\<close>: it adds the nullable field \<^verbatim>\<open>description\<close> of maximal
  length 255 and the field \<^verbatim>\<open>name\<close> of maximal length 255 whose default is the callable
  \<^verbatim>\<open>uuid.uuid4\<close>, and it sets the default ordering to \<^verbatim>\<open>name\<close>.  Applied to any state
  of the models, it appends these two fields to \<^verbatim>\<open>userpreference\<close>, sets its ordering,
  and leaves every other model as it was.
\<close>

theorem migration_adds_two_fields_and_ordering:
  "length operations = 3
   \<and> added_fields operations =
       [(''userpreference'', ''description'', \<lparr>max_length = 255, null = True, default = NoDefault\<rparr>),
        (''userpreference'', ''name'',
           \<lparr>max_length = 255, null = False, default = Callable ''uuid.uuid4''\<rparr>)]
   \<and> altered_options operations = [(''userpreference'', [(''ordering'', [''name''])])]
   \<and> model_fields (migrate keys operations st ''userpreference'') =
       model_fields (st ''userpreference'') @
         [(''description'', \<lparr>max_length = 255, null = True, default = NoDefault\<rparr>),
          (''name'', \<lparr>max_length = 255, null = False, default = Callable ''uuid.uuid4''\<rparr>)]
   \<and> model_options (migrate keys operations st ''userpreference'') ''ordering'' = Some [''name'']
   \<and> (m \<noteq> ''userpreference'' \<longrightarrow> migrate keys operations st m = st m)"
  by (simp add: operations_def migrate_def)

theorem migration_adds_two_fields_and_ordering_witness:
  "map fst (model_fields
      (migrate [''ordering'', ''managed''] operations
         (\<lambda>m. \<lparr>model_options = Map.empty, model_fields = []\<rparr>) ''userpreference''))
     = [''description'', ''name'']
   \<and> model_fields
      (migrate [''ordering'', ''managed''] operations
         (\<lambda>m. \<lparr>model_options = Map.empty, model_fields = []\<rparr>) ''user'') = []"
  using migration_adds_two_fields_and_ordering[where keys = "[''ordering'', ''managed'']"
      and st = "\<lambda>m. \<lparr>model_options = Map.empty, model_fields = []\<rparr>" and m = "''user''"]
  by simp

end
